theory Spec2Isabelle
  imports Complex_Main "HOL-Library.Multiset"
begin

section \<open>The orchestration wrapper of the island simulation (simulation.py)\<close>

text \<open>
  The module under verification is the class \<open>BioSim\<close>. It owns the seed of the random
  source, the loop over the simulated years and the two history lists of per-year totals.
  Everything else it does goes through three collaborators: the module \<open>random\<close> of the
  Python library, the class \<open>Island\<close> of \<open>biosim.island\<close> and the data frame of
  \<open>pandas\<close>.

  The embedding passes state explicitly. A value of type \<open>'w\<close> is the process-wide
  state that lives outside the \<open>BioSim\<close> object (the state of the shared random source
  and the parameter store); a value of type \<open>'i\<close> is the state of the island object that
  the field \<open>island\<close> refers to. Exceptions are values of the type \<open>error\<close>.
\<close>

subsection \<open>Errors and input data\<close>

datatype error =
    MapFormatError
  | PopulationError
  | ParameterError
  | AttributeError
  | IndexError

text \<open>
  One animal of a population specification is a dictionary with the key \<open>species\<close> and
  the optional keys \<open>age\<close> and \<open>weight\<close>; one entry of the specification is a
  dictionary with the keys \<open>loc\<close> (a coordinate pair) and \<open>pop\<close> (a list of animals).
\<close>

record animal_spec =
  species :: string
  age :: "int option"
  weight :: "real option"

record pop_entry =
  loc :: "int \<times> int"
  pop :: "animal_spec list"

type_synonym population = "pop_entry list"

subsection \<open>The collaborators\<close>

text \<open>
  The source of \<open>biosim.island\<close> is not part of the module, so the operations of the
  island that \<open>BioSim\<close> calls are parameters of the embedding, collected in a record:
  \<^item> \<open>random_seed\<close> is \<open>random.seed(seed)\<close>, an update of the process-wide state;
  \<^item> \<open>Island\<close> is the constructor \<open>bi.Island(island_map=...)\<close>, which may raise;
  \<^item> \<open>populate_the_island\<close> mutates the island and may raise; when it raises, the island
    it leaves behind is the second component of its result;
  \<^item> \<open>annual_cycle\<close> mutates the island, consumes the random source and returns a pair
    of numbers;
  \<^item> \<open>total_island_population\<close> and \<open>population_in_each_cell\<close> are read from the island.
\<close>

record ('i, 'w) island_ops =
  random_seed :: "int \<Rightarrow> 'w \<Rightarrow> 'w"
  Island :: "string \<Rightarrow> 'w \<Rightarrow> (error + 'i) \<times> 'w"
  populate_the_island :: "population \<Rightarrow> 'i \<Rightarrow> 'w \<Rightarrow> error option \<times> 'i \<times> 'w"
  annual_cycle :: "'i \<Rightarrow> 'w \<Rightarrow> (int \<times> int) \<times> 'i \<times> 'w"
  total_island_population :: "'i \<Rightarrow> int \<times> int"
  population_in_each_cell :: "'i \<Rightarrow> (int \<times> int) list"

subsection \<open>The class BioSim\<close>

record 'i biosim =
  last_year_simulated :: int
  island_map :: string
  ini_pop :: population
  island :: 'i
  herbivore_list :: "int list"
  carnivore_list :: "int list"
  ymax_animals :: "int option"
  cmax_animals :: "(string \<times> int) list option"
  img_base :: "string option"
  img_fmt :: string

text \<open>
  \<open>BioSim.__init__\<close>: seed the random source, build the island, populate it, read the
  totals into the two history lists. An exception of the island's constructor or of
  \<open>populate_the_island\<close> leaves no object behind.
\<close>

definition BioSim_init ::
  "('i, 'w) island_ops \<Rightarrow> string \<Rightarrow> population \<Rightarrow> int \<Rightarrow> int option \<Rightarrow>
   (string \<times> int) list option \<Rightarrow> string option \<Rightarrow> string \<Rightarrow> 'w \<Rightarrow> (error + 'i biosim) \<times> 'w"
where
  "BioSim_init ops m p seed ymax cmax base fmt w =
     (let w1 = random_seed ops seed w in
      case Island ops m w1 of
        (Inl e, w2) \<Rightarrow> (Inl e, w2)
      | (Inr land0, w2) \<Rightarrow>
          (case populate_the_island ops p land0 w2 of
             (Some e, land', w3) \<Rightarrow> (Inl e, w3)
           | (None, land', w3) \<Rightarrow>
               (Inr \<lparr> last_year_simulated = 0,
                      island_map = m,
                      ini_pop = p,
                      island = land',
                      herbivore_list = [fst (total_island_population ops land')],
                      carnivore_list = [snd (total_island_population ops land')],
                      ymax_animals = ymax,
                      cmax_animals = cmax,
                      img_base = base,
                      img_fmt = fmt \<rparr>, w3)))"

text \<open>
  \<open>BioSim.simulate\<close>: the body of the loop, then the loop over \<open>range(num_years)\<close>,
  which runs \<open>num_years\<close> times and not at all when \<open>num_years\<close> is negative. The
  arguments \<open>vis_years\<close> and \<open>img_years\<close> are accepted and not used.
\<close>

definition simulate_year :: "('i, 'w) island_ops \<Rightarrow> 'i biosim \<Rightarrow> 'w \<Rightarrow> 'i biosim \<times> 'w" where
  "simulate_year ops s w =
     (case annual_cycle ops (island s) w of
        (new_island_population, land', w') \<Rightarrow>
          (s \<lparr> island := land',
               herbivore_list := herbivore_list s @ [fst new_island_population],
               carnivore_list := carnivore_list s @ [snd new_island_population] \<rparr>, w'))"

fun simulate_loop :: "('i, 'w) island_ops \<Rightarrow> nat \<Rightarrow> 'i biosim \<Rightarrow> 'w \<Rightarrow> 'i biosim \<times> 'w" where
  "simulate_loop ops 0 s w = (s, w)"
| "simulate_loop ops (Suc k) s w =
     (case simulate_year ops s w of (s', w') \<Rightarrow> simulate_loop ops k s' w')"

definition simulate ::
  "('i, 'w) island_ops \<Rightarrow> int \<Rightarrow> int \<Rightarrow> int option \<Rightarrow> 'i biosim \<Rightarrow> 'w \<Rightarrow> 'i biosim \<times> 'w"
where
  "simulate ops num_years vis_years img_years s w = simulate_loop ops (nat num_years) s w"

text \<open>\<open>BioSim.add_population\<close> hands the specification to the island and nothing else.\<close>

definition add_population ::
  "('i, 'w) island_ops \<Rightarrow> population \<Rightarrow> 'i biosim \<Rightarrow> 'w \<Rightarrow> error option \<times> 'i biosim \<times> 'w"
where
  "add_population ops population s w =
     (case populate_the_island ops population (island s) w of
        (e, land', w') \<Rightarrow> (e, s \<lparr> island := land' \<rparr>, w'))"

text \<open>The properties. \<open>x[-1]\<close> raises \<open>IndexError\<close> on an empty list.\<close>

definition year :: "'i biosim \<Rightarrow> int" where
  "year s = last_year_simulated s"

definition last_item :: "'a list \<Rightarrow> error + 'a" where
  "last_item xs = (case xs of [] \<Rightarrow> Inl IndexError | _ # _ \<Rightarrow> Inr (last xs))"

definition num_animals :: "'i biosim \<Rightarrow> error + int" where
  "num_animals s =
     (case last_item (herbivore_list s) of
        Inl e \<Rightarrow> Inl e
      | Inr h \<Rightarrow> (case last_item (carnivore_list s) of
                    Inl e \<Rightarrow> Inl e
                  | Inr c \<Rightarrow> Inr (h + c)))"

definition num_animals_per_species :: "('i, 'w) island_ops \<Rightarrow> 'i biosim \<Rightarrow> (string \<times> int) list" where
  "num_animals_per_species ops s =
     [(''Herbivores'', fst (total_island_population ops (island s))),
      (''Carnivore'', snd (total_island_population ops (island s)))]"

text \<open>A data frame is its column names and its rows.\<close>

record data_frame =
  columns :: "string list"
  rows :: "(int \<times> int) list"

definition animal_distribution :: "('i, 'w) island_ops \<Rightarrow> 'i biosim \<Rightarrow> data_frame" where
  "animal_distribution ops s =
     \<lparr> columns = [''Herbivores'', ''Carnivores''],
       rows = population_in_each_cell ops (island s) \<rparr>"

text \<open>
  \<open>BioSim.set_animal_parameters\<close> and \<open>BioSim.set_landscape_parameters\<close> call a method
  of their first argument. The docstrings give that argument as a string (the name of the
  species, the code letter of the landscape); \<open>str\<close> has no such attribute, so the
  attribute lookup raises \<open>AttributeError\<close>. Any other argument is an object, given here
  by its table of methods; a method takes the parameter dictionary and the process-wide
  state. The argument \<open>self\<close> is not used by either method.
\<close>

type_synonym params = "(string \<times> real) list"

datatype 'w receiver =
    Str string
  | Object "string \<Rightarrow> (params \<Rightarrow> 'w \<Rightarrow> error option \<times> 'w) option"

definition call_method :: "string \<Rightarrow> 'w receiver \<Rightarrow> params \<Rightarrow> 'w \<Rightarrow> error option \<times> 'w" where
  "call_method name r ps w =
     (case r of
        Str _ \<Rightarrow> (Some AttributeError, w)
      | Object attrs \<Rightarrow>
          (case attrs name of
             None \<Rightarrow> (Some AttributeError, w)
           | Some f \<Rightarrow> f ps w))"

definition set_animal_parameters :: "'w receiver \<Rightarrow> params \<Rightarrow> 'w \<Rightarrow> error option \<times> 'w" where
  "set_animal_parameters species_arg ps w = call_method ''set_animal_parameters'' species_arg ps w"

definition set_landscape_parameters :: "'w receiver \<Rightarrow> params \<Rightarrow> 'w \<Rightarrow> error option \<times> 'w" where
  "set_landscape_parameters landscape_arg ps w =
     call_method ''set_landscape_parameters'' landscape_arg ps w"

subsection \<open>Sequences of calls on one object\<close>

text \<open>
  A caller that holds a \<open>BioSim\<close> object makes calls of \<open>simulate\<close> and
  \<open>add_population\<close> in some order. An exception of \<open>add_population\<close> goes to the
  caller; the object stays as the call left it and later calls see it.
\<close>

datatype call =
    Simulate int int "int option"
  | Add_population population

fun apply_call :: "('i, 'w) island_ops \<Rightarrow> call \<Rightarrow> 'i biosim \<Rightarrow> 'w \<Rightarrow> 'i biosim \<times> 'w" where
  "apply_call ops (Simulate n v g) s w = simulate ops n v g s w"
| "apply_call ops (Add_population p) s w = snd (add_population ops p s w)"

fun apply_calls :: "('i, 'w) island_ops \<Rightarrow> call list \<Rightarrow> 'i biosim \<Rightarrow> 'w \<Rightarrow> 'i biosim \<times> 'w" where
  "apply_calls ops [] s w = (s, w)"
| "apply_calls ops (c # cs) s w =
     (case apply_call ops c s w of (s', w') \<Rightarrow> apply_calls ops cs s' w')"

text \<open>
  A whole run: construct the object, make the calls, read the two history lists. The
  result is the exception of the constructor when it raises.
\<close>

definition history_of_run ::
  "('i, 'w) island_ops \<Rightarrow> string \<Rightarrow> population \<Rightarrow> int \<Rightarrow> call list \<Rightarrow> 'w \<Rightarrow>
   error + (int list \<times> int list)"
where
  "history_of_run ops m p seed cs w =
     (case BioSim_init ops m p seed None None None ''png'' w of
        (Inl e, w') \<Rightarrow> Inl e
      | (Inr s, w') \<Rightarrow>
          (case apply_calls ops cs s w' of
             (s', w'') \<Rightarrow> Inr (herbivore_list s', carnivore_list s')))"

subsection \<open>Observing the calls made on the collaborators\<close>

text \<open>
  To state which calls the wrapper makes and in which order, the collaborators are wrapped
  so that each call is written to a log kept beside the process-wide state. The wrapped
  operations compute what the given ones compute.
\<close>

datatype event =
    Call_seed int
  | Call_Island string
  | Call_populate population
  | Call_annual_cycle

definition traced :: "('i, 'w) island_ops \<Rightarrow> ('i, 'w \<times> event list) island_ops" where
  "traced ops =
     \<lparr> random_seed = (\<lambda>seed (w, t). (random_seed ops seed w, t @ [Call_seed seed])),
       Island = (\<lambda>m (w, t). case Island ops m w of (r, w') \<Rightarrow> (r, (w', t @ [Call_Island m]))),
       populate_the_island =
         (\<lambda>p land0 (w, t). case populate_the_island ops p land0 w of
                             (e, land', w') \<Rightarrow> (e, land', (w', t @ [Call_populate p]))),
       annual_cycle =
         (\<lambda>land0 (w, t). case annual_cycle ops land0 w of
                           (r, land', w') \<Rightarrow> (r, land', (w', t @ [Call_annual_cycle]))),
       total_island_population = total_island_population ops,
       population_in_each_cell = population_in_each_cell ops \<rparr>"

fun is_seed :: "event \<Rightarrow> bool" where
  "is_seed (Call_seed _) = True"
| "is_seed _ = False"

fun events_of_call :: "call \<Rightarrow> event list" where
  "events_of_call (Simulate n v g) = replicate (nat n) Call_annual_cycle"
| "events_of_call (Add_population p) = [Call_populate p]"

text \<open>
  The island and the process-wide state after \<open>k\<close> annual cycles, and the value that
  the annual cycle number \<open>k + 1\<close> returns.
\<close>

fun island_after :: "('i, 'w) island_ops \<Rightarrow> nat \<Rightarrow> 'i \<Rightarrow> 'w \<Rightarrow> 'i \<times> 'w" where
  "island_after ops 0 land0 w = (land0, w)"
| "island_after ops (Suc k) land0 w =
     (case island_after ops k land0 w of (land', w') \<Rightarrow> snd (annual_cycle ops land' w'))"

definition year_return :: "('i, 'w) island_ops \<Rightarrow> nat \<Rightarrow> 'i \<Rightarrow> 'w \<Rightarrow> int \<times> int" where
  "year_return ops k land0 w =
     (case island_after ops k land0 w of (land', w') \<Rightarrow> fst (annual_cycle ops land' w'))"

text \<open>
  The specification has the annual cycle hand the aggregated totals back to the wrapper.
  As a property of the island operations: what \<open>annual_cycle\<close> returns is what
  \<open>total_island_population\<close> reads from the island it leaves.
\<close>

definition returns_totals :: "('i, 'w) island_ops \<Rightarrow> bool" where
  "returns_totals ops \<longleftrightarrow>
     (\<forall>land0 w. fst (annual_cycle ops land0 w) =
                 total_island_population ops (fst (snd (annual_cycle ops land0 w))))"

section \<open>The island grid, from the specification\<close>

text \<open>
  The class \<open>Island\<close> has no source in the module. The part of it that the claims on
  \<open>add_population\<close> and on the population counts rest on (the construction of the grid from
  the map, \<open>populate\<close> and the aggregate accessors) is written here from sections 3, 4.3,
  6 and 7 of the specification. The annual cycle, the sampling of a birth weight and the
  seeding of the random source stay parameters.
\<close>

datatype landscape = Water | Lowland | Highland | Desert

datatype species_tag = Herbivore | Carnivore

record animal =
  animal_species :: species_tag
  animal_age :: int
  animal_weight :: real

text \<open>
  Modelled from the spec: the cell of the missing \<open>biosim.island\<close>, with its fixed terrain
  type and one collection of animals for each species. The fodder stock is left out: no
  operation of the wrapper reads it.
\<close>

record cell =
  terrain :: landscape
  herbivores :: "animal list"
  carnivores :: "animal list"

type_synonym grid = "cell list list"

text \<open>
  Modelled from the spec: the terrain letters of the map of the missing \<open>Island\<close>
  constructor, \<open>W\<close>, \<open>L\<close>, \<open>H\<close> and \<open>D\<close>.
\<close>

definition landscape_of :: "char \<Rightarrow> landscape option" where
  "landscape_of c =
     (if c = CHR ''W'' then Some Water
      else if c = CHR ''L'' then Some Lowland
      else if c = CHR ''H'' then Some Highland
      else if c = CHR ''D'' then Some Desert
      else None)"

text \<open>
  Modelled from the spec: the rows of the map text of the missing \<open>Island\<close> constructor,
  one row for each line of the multi-line string.
\<close>

fun split_rows :: "string \<Rightarrow> string list" where
  "split_rows [] = [[]]"
| "split_rows (c # cs) =
     (if c = CHR 0x0A then [] # split_rows cs
      else (case split_rows cs of
              [] \<Rightarrow> [[c]]
            | r # rs \<Rightarrow> (c # r) # rs))"

definition new_cell :: "landscape \<Rightarrow> cell" where
  "new_cell t = \<lparr> terrain = t, herbivores = [], carnivores = [] \<rparr>"

definition perimeter_is_water :: "landscape list list \<Rightarrow> bool" where
  "perimeter_is_water ts \<longleftrightarrow>
     ts \<noteq> [] \<and>
     list_all (\<lambda>t. t = Water) (hd ts) \<and>
     list_all (\<lambda>t. t = Water) (last ts) \<and>
     list_all (\<lambda>r. r \<noteq> [] \<and> hd r = Water \<and> last r = Water) ts"

text \<open>
  Modelled from the spec: the missing constructor \<open>Island(island_map)\<close>. It fails with a
  format error when the rows have unequal length, when a character is not a terrain letter
  or when a cell of the perimeter is not water, and builds one empty cell for each
  position otherwise.
\<close>

definition Island_new :: "string \<Rightarrow> error + grid" where
  "Island_new m =
     (let rs = split_rows m in
      if \<not> list_all (\<lambda>r. length r = length (hd rs)) rs then Inl MapFormatError
      else if \<not> list_all (list_all (\<lambda>c. landscape_of c \<noteq> None)) rs then Inl MapFormatError
      else if \<not> perimeter_is_water (map (map (\<lambda>c. the (landscape_of c))) rs)
        then Inl MapFormatError
      else Inr (map (map (\<lambda>c. new_cell (the (landscape_of c)))) rs))"

text \<open>
  Modelled from the spec: the two species names that the missing \<open>populate\<close> recognises.
\<close>

definition species_of_name :: "string \<Rightarrow> species_tag option" where
  "species_of_name n =
     (if n = ''Herbivore'' then Some Herbivore
      else if n = ''Carnivore'' then Some Carnivore
      else None)"

text \<open>
  Modelled from the spec: the cell that a coordinate of the missing \<open>populate\<close> addresses.
  Coordinates are pairs of row and column, counted from 1; outside the grid there is none.
\<close>

definition cell_at :: "grid \<Rightarrow> int \<times> int \<Rightarrow> cell option" where
  "cell_at g rc =
     (case rc of (r, c) \<Rightarrow>
        if 1 \<le> r \<and> r \<le> int (length g) \<and> 1 \<le> c \<and> c \<le> int (length (g ! nat (r - 1)))
        then Some (g ! nat (r - 1) ! nat (c - 1))
        else None)"

definition set_cell :: "grid \<Rightarrow> int \<times> int \<Rightarrow> cell \<Rightarrow> grid" where
  "set_cell g rc x =
     (case rc of (r, c) \<Rightarrow> g[nat (r - 1) := (g ! nat (r - 1))[nat (c - 1) := x]])"

text \<open>
  Modelled from the spec: the animal that the missing \<open>populate\<close> constructs from a
  descriptor. An omitted age is 0; an omitted weight is sampled from the birth
  distribution of the species, which consumes the random source.
\<close>

definition make_animal ::
  "(species_tag \<Rightarrow> 'w \<Rightarrow> real \<times> 'w) \<Rightarrow> species_tag \<Rightarrow> animal_spec \<Rightarrow> 'w \<Rightarrow> animal \<times> 'w"
where
  "make_animal sample t d w =
     (case (case weight d of Some x \<Rightarrow> (x, w) | None \<Rightarrow> sample t w) of
        (x, w') \<Rightarrow>
          (\<lparr> animal_species = t,
             animal_age = (case age d of Some a \<Rightarrow> a | None \<Rightarrow> 0),
             animal_weight = x \<rparr>, w'))"

definition insert_animal :: "animal \<Rightarrow> cell \<Rightarrow> cell" where
  "insert_animal a c =
     (case animal_species a of
        Herbivore \<Rightarrow> c \<lparr> herbivores := herbivores c @ [a] \<rparr>
      | Carnivore \<Rightarrow> c \<lparr> carnivores := carnivores c @ [a] \<rparr>)"

text \<open>
  Modelled from the spec: the insertion loop of the missing \<open>populate\<close> over the animal
  descriptors of one entry, each animal going into the collection of its species.
\<close>

fun insert_animals ::
  "(species_tag \<Rightarrow> 'w \<Rightarrow> real \<times> 'w) \<Rightarrow> animal_spec list \<Rightarrow> cell \<Rightarrow> 'w \<Rightarrow> cell \<times> 'w"
where
  "insert_animals sample [] c w = (c, w)"
| "insert_animals sample (d # ds) c w =
     (case species_of_name (species d) of
        None \<Rightarrow> insert_animals sample ds c w
      | Some t \<Rightarrow>
          (case make_animal sample t d w of
             (a, w') \<Rightarrow> insert_animals sample ds (insert_animal a c) w'))"

text \<open>
  Modelled from the spec: one entry of the missing \<open>populate\<close>. It fails when the
  coordinate is out of the grid, when it addresses a water cell or when a species name is
  not recognised, and inserts nothing of that entry then.
\<close>

definition populate_entry ::
  "(species_tag \<Rightarrow> 'w \<Rightarrow> real \<times> 'w) \<Rightarrow> pop_entry \<Rightarrow> grid \<Rightarrow> 'w \<Rightarrow> error option \<times> grid \<times> 'w"
where
  "populate_entry sample e g w =
     (case cell_at g (loc e) of
        None \<Rightarrow> (Some PopulationError, g, w)
      | Some c \<Rightarrow>
          if terrain c = Water then (Some PopulationError, g, w)
          else if \<not> list_all (\<lambda>d. species_of_name (species d) \<noteq> None) (pop e)
            then (Some PopulationError, g, w)
          else (case insert_animals sample (pop e) c w of
                  (c', w') \<Rightarrow> (None, set_cell g (loc e) c', w')))"

text \<open>
  Modelled from the spec: the missing \<open>populate\<close> (\<open>populate_the_island\<close> in the
  wrapper), over the entries in order. It stops at the first entry that fails; the entries
  applied before it stay applied, which the specification allows.
\<close>

fun Island_populate ::
  "(species_tag \<Rightarrow> 'w \<Rightarrow> real \<times> 'w) \<Rightarrow> population \<Rightarrow> grid \<Rightarrow> 'w \<Rightarrow> error option \<times> grid \<times> 'w"
where
  "Island_populate sample [] g w = (None, g, w)"
| "Island_populate sample (e # es) g w =
     (case populate_entry sample e g w of
        (Some err, g', w') \<Rightarrow> (Some err, g', w')
      | (None, g', w') \<Rightarrow> Island_populate sample es g' w')"

text \<open>
  Modelled from the spec: the aggregate accessors of the missing \<open>Island\<close>, the total
  population of each species over the grid and the counts of each cell in row-major order.
\<close>

definition count_in :: "(cell \<Rightarrow> animal list) \<Rightarrow> grid \<Rightarrow> int" where
  "count_in f g = sum_list (map (\<lambda>row. sum_list (map (\<lambda>c. int (length (f c))) row)) g)"

definition Island_total :: "grid \<Rightarrow> int \<times> int" where
  "Island_total g = (count_in herbivores g, count_in carnivores g)"

definition Island_per_cell :: "grid \<Rightarrow> (int \<times> int) list" where
  "Island_per_cell g =
     map (\<lambda>c. (int (length (herbivores c)), int (length (carnivores c)))) (concat g)"

text \<open>The island of the specification as the collaborator of the wrapper.\<close>

definition spec_island ::
  "(int \<Rightarrow> 'w \<Rightarrow> 'w) \<Rightarrow> (species_tag \<Rightarrow> 'w \<Rightarrow> real \<times> 'w) \<Rightarrow>
   (grid \<Rightarrow> 'w \<Rightarrow> (int \<times> int) \<times> grid \<times> 'w) \<Rightarrow> (grid, 'w) island_ops"
where
  "spec_island seed_fn sample cycle =
     \<lparr> random_seed = seed_fn,
       Island = (\<lambda>m w. (Island_new m, w)),
       populate_the_island = Island_populate sample,
       annual_cycle = cycle,
       total_island_population = Island_total,
       population_in_each_cell = Island_per_cell \<rparr>"

text \<open>
  What \<open>populate\<close> promises is stated with two relations: a cell has grown when its
  terrain is the same and every animal that was in it is still in it, a grid when it has
  the same shape and each of its cells has grown.
\<close>

definition cell_grows :: "cell \<Rightarrow> cell \<Rightarrow> bool" where
  "cell_grows c c' \<longleftrightarrow>
     terrain c' = terrain c \<and>
     mset (herbivores c) \<subseteq># mset (herbivores c') \<and>
     mset (carnivores c) \<subseteq># mset (carnivores c')"

definition grid_grows :: "grid \<Rightarrow> grid \<Rightarrow> bool" where
  "grid_grows g g' \<longleftrightarrow> list_all2 (list_all2 cell_grows) g g'"

text \<open>
  A population specification is valid for a grid when every entry addresses a cell of the
  grid that is not water and names recognised species only.
\<close>

definition valid_entry :: "grid \<Rightarrow> pop_entry \<Rightarrow> bool" where
  "valid_entry g e \<longleftrightarrow>
     (case cell_at g (loc e) of
        None \<Rightarrow> False
      | Some c \<Rightarrow> terrain c \<noteq> Water \<and>
                  list_all (\<lambda>d. species_of_name (species d) \<noteq> None) (pop e))"

definition valid_population :: "grid \<Rightarrow> population \<Rightarrow> bool" where
  "valid_population g p \<longleftrightarrow> list_all (valid_entry g) p"

definition described :: "species_tag \<Rightarrow> population \<Rightarrow> int" where
  "described t p =
     int (length (filter (\<lambda>d. species_of_name (species d) = Some t) (concat (map pop p))))"

subsection \<open>A small instance\<close>

text \<open>
  An instance to run the definitions on. The process-wide state is a pair: a counter that
  stands for the state of the random source, and a number that stands for the parameter
  store. Seeding overwrites the counter. A sampled birth weight is 8 and draws once. The
  annual cycle of the instance ages every animal by one year, draws once and returns the
  totals; nothing is born and nothing dies.
\<close>

definition demo_seed :: "int \<Rightarrow> nat \<times> nat \<Rightarrow> nat \<times> nat" where
  "demo_seed seed w = (nat \<bar>seed\<bar>, snd w)"

definition demo_sample :: "species_tag \<Rightarrow> nat \<times> nat \<Rightarrow> real \<times> nat \<times> nat" where
  "demo_sample t w = (8, (Suc (fst w), snd w))"

definition grow_older :: "animal \<Rightarrow> animal" where
  "grow_older a = a \<lparr> animal_age := animal_age a + 1 \<rparr>"

definition demo_cycle :: "grid \<Rightarrow> nat \<times> nat \<Rightarrow> (int \<times> int) \<times> grid \<times> nat \<times> nat" where
  "demo_cycle g w =
     (Island_total g,
      map (map (\<lambda>c. c \<lparr> herbivores := map grow_older (herbivores c),
                          carnivores := map grow_older (carnivores c) \<rparr>)) g,
      (Suc (fst w), snd w))"

definition demo_ops :: "(grid, nat \<times> nat) island_ops" where
  "demo_ops = spec_island demo_seed demo_sample demo_cycle"

definition demo_map :: string where
  "demo_map = ''WWW'' @ [CHR 0x0A] @ ''WLW'' @ [CHR 0x0A] @ ''WWW''"

definition one_herbivore :: population where
  "one_herbivore =
     [\<lparr> loc = (2, 2),
        pop = [\<lparr> species = ''Herbivore'', age = Some 5, weight = Some 20 \<rparr>] \<rparr>]"

definition demo_grid :: "animal list \<Rightarrow> grid" where
  "demo_grid hs =
     [[new_cell Water, new_cell Water, new_cell Water],
      [new_cell Water, \<lparr> terrain = Lowland, herbivores = hs, carnivores = [] \<rparr>, new_cell Water],
      [new_cell Water, new_cell Water, new_cell Water]]"

definition five_year_old :: animal where
  "five_year_old = \<lparr> animal_species = Herbivore, animal_age = 5, animal_weight = 20 \<rparr>"

definition demo_start :: "grid biosim" where
  "demo_start =
     \<lparr> last_year_simulated = 0,
       island_map = demo_map,
       ini_pop = one_herbivore,
       island = demo_grid [five_year_old],
       herbivore_list = [1],
       carnivore_list = [0],
       ymax_animals = None,
       cmax_animals = None,
       img_base = None,
       img_fmt = ''png'' \<rparr>"

section \<open>Properties of the wrapper, for any island\<close>

subsection \<open>The wrapped collaborators\<close>

lemma traced_sel [simp]:
  "random_seed (traced ops) seed (w, t) = (random_seed ops seed w, t @ [Call_seed seed])"
  "Island (traced ops) m (w, t) = (fst (Island ops m w), (snd (Island ops m w), t @ [Call_Island m]))"
  "populate_the_island (traced ops) p l (w, t) =
     (fst (populate_the_island ops p l w), fst (snd (populate_the_island ops p l w)),
      (snd (snd (populate_the_island ops p l w)), t @ [Call_populate p]))"
  "annual_cycle (traced ops) l (w, t) =
     (fst (annual_cycle ops l w), fst (snd (annual_cycle ops l w)),
      (snd (snd (annual_cycle ops l w)), t @ [Call_annual_cycle]))"
  "total_island_population (traced ops) = total_island_population ops"
  "population_in_each_cell (traced ops) = population_in_each_cell ops"
  by (simp_all add: traced_def split: prod.splits)

lemma simulate_year_traced:
  "simulate_year (traced ops) s (w, t) =
     (fst (simulate_year ops s w), (snd (simulate_year ops s w), t @ [Call_annual_cycle]))"
  by (simp add: simulate_year_def split: prod.splits)

lemma simulate_loop_traced:
  "simulate_loop (traced ops) k s (w, t) =
     (fst (simulate_loop ops k s w), (snd (simulate_loop ops k s w), t @ replicate k Call_annual_cycle))"
proof (induction k arbitrary: s w t)
  case 0 show ?case by simp
next
  case (Suc k)
  show ?case
    by (simp add: simulate_year_traced Suc split: prod.splits)
qed

lemma apply_call_traced:
  "apply_call (traced ops) c s (w, t) =
     (fst (apply_call ops c s w), (snd (apply_call ops c s w), t @ events_of_call c))"
  by (cases c) (simp_all add: simulate_def simulate_loop_traced add_population_def split: prod.splits)

lemma apply_calls_traced:
  "apply_calls (traced ops) cs s (w, t) =
     (fst (apply_calls ops cs s w), (snd (apply_calls ops cs s w), t @ concat (map events_of_call cs)))"
proof (induction cs arbitrary: s w t)
  case Nil show ?case by simp
next
  case (Cons c cs)
  show ?case by (simp add: apply_call_traced Cons split: prod.splits)
qed

lemma init_traced_ok:
  "BioSim_init (traced ops) m p seed y c b f (w, t) = (Inr s, wt) \<Longrightarrow>
   BioSim_init ops m p seed y c b f w = (Inr s, fst wt) \<and>
   snd wt = t @ [Call_seed seed, Call_Island m, Call_populate p]"
  by (auto simp: BioSim_init_def Let_def split: prod.splits sum.splits option.splits)

lemma init_ok_traced:
  "BioSim_init ops m p seed y c b f w = (Inr s, w') \<Longrightarrow>
   BioSim_init (traced ops) m p seed y c b f (w, t) =
     (Inr s, (w', t @ [Call_seed seed, Call_Island m, Call_populate p]))"
  by (auto simp: BioSim_init_def Let_def split: prod.splits sum.splits option.splits)

lemma no_seed_in_call: "filter is_seed (events_of_call c) = []"
  by (cases c) simp_all

lemma no_seed_in_calls: "filter is_seed (concat (map events_of_call cs)) = []"
  by (induction cs) (simp_all add: no_seed_in_call)

subsection \<open>The loop over the years\<close>

lemma simulate_loop_snoc:
  "simulate_loop ops (Suc k) s w =
     (case simulate_loop ops k s w of (s', w') \<Rightarrow> simulate_year ops s' w')"
proof (induction k arbitrary: s w)
  case 0 show ?case by (simp split: prod.splits)
next
  case (Suc k)
  obtain s1 w1 where st: "simulate_year ops s w = (s1, w1)" by (cases "simulate_year ops s w")
  have "simulate_loop ops (Suc (Suc k)) s w = simulate_loop ops (Suc k) s1 w1"
    using st by simp
  also have "\<dots> = (case simulate_loop ops k s1 w1 of (s', w') \<Rightarrow> simulate_year ops s' w')"
    by (rule Suc)
  also have "simulate_loop ops k s1 w1 = simulate_loop ops (Suc k) s w"
    using st by simp
  finally show ?case .
qed

lemma simulate_loop_unfold:
  "simulate_loop ops k s w =
     (s \<lparr> island := fst (island_after ops k (island s) w),
          herbivore_list := herbivore_list s @ map (\<lambda>j. fst (year_return ops j (island s) w)) [0..<k],
          carnivore_list := carnivore_list s @ map (\<lambda>j. snd (year_return ops j (island s) w)) [0..<k] \<rparr>,
      snd (island_after ops k (island s) w))"
proof (induction k)
  case 0 show ?case by simp
next
  case (Suc k)
  show ?case
    unfolding simulate_loop_snoc Suc
    by (simp add: simulate_year_def year_return_def split: prod.splits)
qed

lemma year_return_total:
  "returns_totals ops \<Longrightarrow>
   year_return ops k l w = total_island_population ops (fst (island_after ops (Suc k) l w))"
  by (simp add: returns_totals_def year_return_def split: prod.splits)

subsection \<open>The year counter\<close>

lemma simulate_year_year: "last_year_simulated (fst (simulate_year ops s w)) = last_year_simulated s"
  by (simp add: simulate_year_def split: prod.splits)

lemma simulate_loop_year: "last_year_simulated (fst (simulate_loop ops k s w)) = last_year_simulated s"
proof (induction k arbitrary: s w)
  case 0 show ?case by simp
next
  case (Suc k)
  obtain s' w' where st: "simulate_year ops s w = (s', w')" by (cases "simulate_year ops s w")
  have "last_year_simulated s' = last_year_simulated s"
    using simulate_year_year [of ops s w] st by simp
  with Suc [of s' w'] st show ?case by simp
qed

lemma apply_call_year: "last_year_simulated (fst (apply_call ops c s w)) = last_year_simulated s"
  by (cases c) (simp_all add: simulate_def simulate_loop_year add_population_def split: prod.splits)

lemma apply_calls_year: "last_year_simulated (fst (apply_calls ops cs s w)) = last_year_simulated s"
proof (induction cs arbitrary: s w)
  case Nil show ?case by simp
next
  case (Cons c cs)
  obtain s' w' where st: "apply_call ops c s w = (s', w')" by (cases "apply_call ops c s w")
  have "last_year_simulated s' = last_year_simulated s"
    using apply_call_year [of ops c s w] st by simp
  with Cons [of s' w'] st show ?case by simp
qed

lemma init_year: "BioSim_init ops m p seed y c b f w = (Inr s, w') \<Longrightarrow> last_year_simulated s = 0"
  by (auto simp: BioSim_init_def Let_def split: prod.splits sum.splits option.splits)

section \<open>Properties of the island of the specification\<close>

lemma make_animal_species: "animal_species (fst (make_animal sample t d w)) = t"
  by (simp add: make_animal_def split: prod.splits option.splits)

lemma insert_animal_grows: "cell_grows c (insert_animal a c)"
  by (simp add: cell_grows_def insert_animal_def split: species_tag.splits)

lemma cell_grows_refl: "cell_grows c c"
  by (simp add: cell_grows_def)

lemma cell_grows_trans: "cell_grows a b \<Longrightarrow> cell_grows b c \<Longrightarrow> cell_grows a c"
  by (auto simp: cell_grows_def intro: subset_mset.order_trans)

lemma insert_animal_herbivores:
  "length (herbivores (insert_animal a c)) =
     length (herbivores c) + (if animal_species a = Herbivore then 1 else 0)"
  by (simp add: insert_animal_def split: species_tag.splits)

lemma insert_animal_carnivores:
  "length (carnivores (insert_animal a c)) =
     length (carnivores c) + (if animal_species a = Carnivore then 1 else 0)"
  by (simp add: insert_animal_def split: species_tag.splits)

lemma insert_animals_grows: "cell_grows c (fst (insert_animals sample ds c w))"
proof (induction ds arbitrary: c w)
  case Nil show ?case by (simp add: cell_grows_refl)
next
  case (Cons d ds)
  show ?case
  proof (cases "species_of_name (species d)")
    case None
    then show ?thesis using Cons by simp
  next
    case (Some t)
    obtain a w' where m: "make_animal sample t d w = (a, w')" by (cases "make_animal sample t d w")
    have "cell_grows (insert_animal a c) (fst (insert_animals sample ds (insert_animal a c) w'))"
      by (rule Cons)
    then have "cell_grows c (fst (insert_animals sample ds (insert_animal a c) w'))"
      using insert_animal_grows cell_grows_trans by blast
    then show ?thesis using Some m by simp
  qed
qed

lemma insert_animals_herbivores:
  "length (herbivores (fst (insert_animals sample ds c w))) =
     length (herbivores c) + length (filter (\<lambda>d. species_of_name (species d) = Some Herbivore) ds)"
proof (induction ds arbitrary: c w)
  case Nil show ?case by simp
next
  case (Cons d ds)
  show ?case
  proof (cases "species_of_name (species d)")
    case None
    then show ?thesis using Cons by simp
  next
    case (Some t)
    obtain a w' where m: "make_animal sample t d w = (a, w')" by (cases "make_animal sample t d w")
    have a: "animal_species a = t" using make_animal_species [of sample t d w] m by simp
    show ?thesis using Some m a Cons [of "insert_animal a c" w']
      by (simp add: insert_animal_herbivores)
  qed
qed

lemma insert_animals_carnivores:
  "length (carnivores (fst (insert_animals sample ds c w))) =
     length (carnivores c) + length (filter (\<lambda>d. species_of_name (species d) = Some Carnivore) ds)"
proof (induction ds arbitrary: c w)
  case Nil show ?case by simp
next
  case (Cons d ds)
  show ?case
  proof (cases "species_of_name (species d)")
    case None
    then show ?thesis using Cons by simp
  next
    case (Some t)
    obtain a w' where m: "make_animal sample t d w = (a, w')" by (cases "make_animal sample t d w")
    have a: "animal_species a = t" using make_animal_species [of sample t d w] m by simp
    show ?thesis using Some m a Cons [of "insert_animal a c" w']
      by (simp add: insert_animal_carnivores)
  qed
qed

lemma sum_list_map_update:
  fixes f :: "'a \<Rightarrow> int"
  shows "i < length xs \<Longrightarrow> sum_list (map f (xs[i := x])) = sum_list (map f xs) - f (xs ! i) + f x"
proof (induction xs arbitrary: i)
  case Nil then show ?case by simp
next
  case (Cons y ys)
  then show ?case by (cases i) simp_all
qed

lemma count_in_set_cell:
  assumes "cell_at g rc = Some c"
  shows "count_in f (set_cell g rc x) = count_in f g - int (length (f c)) + int (length (f x))"
proof -
  obtain r k where rc: "rc = (r, k)" by (cases rc)
  let ?i = "nat (r - 1)" and ?j = "nat (k - 1)"
  from assms rc have i: "?i < length g" and j: "?j < length (g ! ?i)" and c: "c = g ! ?i ! ?j"
    by (auto simp: cell_at_def split: if_splits)
  show ?thesis
    using i j
    by (simp add: count_in_def set_cell_def rc c sum_list_map_update)
qed

lemma grid_grows_refl: "grid_grows g g"
  by (simp add: grid_grows_def list_all2_conv_all_nth cell_grows_refl)

lemma grid_grows_trans: "grid_grows a b \<Longrightarrow> grid_grows b c \<Longrightarrow> grid_grows a c"
proof -
  have rows: "\<And>x y z. list_all2 cell_grows x y \<Longrightarrow> list_all2 cell_grows y z \<Longrightarrow>
                list_all2 cell_grows x z"
    by (rule list_all2_trans [where ?P1.0 = cell_grows and ?P2.0 = cell_grows])
       (rule cell_grows_trans)
  assume "grid_grows a b" and "grid_grows b c"
  then show ?thesis
    unfolding grid_grows_def
    by (rule list_all2_trans [where ?P1.0 = "list_all2 cell_grows"
          and ?P2.0 = "list_all2 cell_grows", rotated]) (rule rows)
qed

lemma grid_grows_set_cell:
  assumes "cell_at g rc = Some c" and "cell_grows c c'"
  shows "grid_grows g (set_cell g rc c')"
proof -
  obtain r k where rc: "rc = (r, k)" by (cases rc)
  let ?i = "nat (r - 1)" and ?j = "nat (k - 1)"
  from assms rc have i: "?i < length g" and j: "?j < length (g ! ?i)" and c: "c = g ! ?i ! ?j"
    by (auto simp: cell_at_def split: if_splits)
  show ?thesis
    using i j assms(2)
    by (auto simp: grid_grows_def set_cell_def rc c list_all2_conv_all_nth nth_list_update cell_grows_refl)
qed

lemma cell_at_grows:
  assumes "grid_grows g g'" and "cell_at g rc = Some c"
  shows "\<exists>c'. cell_at g' rc = Some c' \<and> cell_grows c c'"
proof -
  obtain r k where rc: "rc = (r, k)" by (cases rc)
  let ?i = "nat (r - 1)" and ?j = "nat (k - 1)"
  from assms rc have b: "1 \<le> r" "r \<le> int (length g)" "1 \<le> k" "k \<le> int (length (g ! ?i))"
    and c: "c = g ! ?i ! ?j"
    by (auto simp: cell_at_def split: if_splits)
  from b have i: "?i < length g" and j: "?j < length (g ! ?i)" by auto
  from assms(1) have l: "length g' = length g"
    and rows: "\<And>i. i < length g \<Longrightarrow> list_all2 cell_grows (g ! i) (g' ! i)"
    by (auto simp: grid_grows_def list_all2_conv_all_nth)
  from rows [OF i] have l2: "length (g' ! ?i) = length (g ! ?i)"
    and cg: "cell_grows (g ! ?i ! ?j) (g' ! ?i ! ?j)"
    using j by (auto simp: list_all2_conv_all_nth)
  show ?thesis
    using b l l2 cg by (simp add: cell_at_def rc c)
qed

lemma valid_entry_grows: "grid_grows g g' \<Longrightarrow> valid_entry g e \<Longrightarrow> valid_entry g' e"
  by (auto simp: valid_entry_def cell_grows_def split: option.splits dest: cell_at_grows)

lemma populate_entry_valid:
  assumes "valid_entry g e"
  shows "fst (populate_entry sample e g w) = None \<and>
         grid_grows g (fst (snd (populate_entry sample e g w))) \<and>
         count_in herbivores (fst (snd (populate_entry sample e g w))) =
           count_in herbivores g + described Herbivore [e] \<and>
         count_in carnivores (fst (snd (populate_entry sample e g w))) =
           count_in carnivores g + described Carnivore [e]"
proof -
  from assms obtain c where c: "cell_at g (loc e) = Some c" and t: "terrain c \<noteq> Water"
    and n: "list_all (\<lambda>d. species_of_name (species d) \<noteq> None) (pop e)"
    by (auto simp: valid_entry_def split: option.splits)
  obtain c' w' where ins: "insert_animals sample (pop e) c w = (c', w')"
    by (cases "insert_animals sample (pop e) c w")
  have pe: "populate_entry sample e g w = (None, set_cell g (loc e) c', w')"
    using c t n ins by (simp add: populate_entry_def)
  have g: "cell_grows c c'" using insert_animals_grows [of c sample "pop e" w] ins by simp
  have h: "length (herbivores c') = length (herbivores c) +
             length (filter (\<lambda>d. species_of_name (species d) = Some Herbivore) (pop e))"
    using insert_animals_herbivores [of sample "pop e" c w] ins by simp
  have k: "length (carnivores c') = length (carnivores c) +
             length (filter (\<lambda>d. species_of_name (species d) = Some Carnivore) (pop e))"
    using insert_animals_carnivores [of sample "pop e" c w] ins by simp
  show ?thesis
    by (simp add: pe grid_grows_set_cell [OF c g] count_in_set_cell [OF c] h k described_def)
qed

lemma described_Cons: "described t (e # es) = described t [e] + described t es"
  by (simp add: described_def)

lemma Island_populate_valid:
  "valid_population g p \<Longrightarrow>
   fst (Island_populate sample p g w) = None \<and>
   grid_grows g (fst (snd (Island_populate sample p g w))) \<and>
   count_in herbivores (fst (snd (Island_populate sample p g w))) =
     count_in herbivores g + described Herbivore p \<and>
   count_in carnivores (fst (snd (Island_populate sample p g w))) =
     count_in carnivores g + described Carnivore p"
proof (induction p arbitrary: g w)
  case Nil
  show ?case by (simp add: grid_grows_refl described_def)
next
  case (Cons e es)
  from Cons.prems have ve: "valid_entry g e" and ves: "list_all (valid_entry g) es"
    by (simp_all add: valid_population_def)
  obtain r g' w' where pe: "populate_entry sample e g w = (r, g', w')"
    by (cases "populate_entry sample e g w") auto
  from populate_entry_valid [OF ve, of sample w] pe
  have r: "r = None" and gg: "grid_grows g g'"
    and h: "count_in herbivores g' = count_in herbivores g + described Herbivore [e]"
    and k: "count_in carnivores g' = count_in carnivores g + described Carnivore [e]"
    by simp_all
  have "valid_population g' es"
    using ves gg by (auto simp: valid_population_def list_all_iff intro: valid_entry_grows)
  from Cons.IH [OF this, of w']
  have ih: "fst (Island_populate sample es g' w') = None"
    "grid_grows g' (fst (snd (Island_populate sample es g' w')))"
    "count_in herbivores (fst (snd (Island_populate sample es g' w'))) =
       count_in herbivores g' + described Herbivore es"
    "count_in carnivores (fst (snd (Island_populate sample es g' w'))) =
       count_in carnivores g' + described Carnivore es"
    by simp_all
  have step: "Island_populate sample (e # es) g w = Island_populate sample es g' w'"
    using pe r by simp
  show ?case
    unfolding step
    using ih gg h k grid_grows_trans [OF gg ih(2)]
    by (simp add: described_Cons [of _ e es])
qed

subsection \<open>The small instance, evaluated\<close>

lemma demo_new: "Island_new demo_map = Inr (demo_grid [])"
  by (simp add: Island_new_def demo_map_def demo_grid_def Let_def landscape_of_def
        perimeter_is_water_def new_cell_def)

lemma demo_populate:
  "Island_populate sample one_herbivore (demo_grid hs) w = (None, demo_grid (hs @ [five_year_old]), w)"
  by (simp add: one_herbivore_def demo_grid_def populate_entry_def cell_at_def set_cell_def
        species_of_name_def make_animal_def insert_animal_def new_cell_def five_year_old_def)

lemma demo_populate_empty:
  "Island_populate sample [] (demo_grid hs) w = (None, demo_grid hs, w)"
  by simp

lemma demo_total: "Island_total (demo_grid hs) = (int (length hs), 0)"
  by (simp add: Island_total_def count_in_def demo_grid_def new_cell_def)

lemma demo_cycle_grid:
  "demo_cycle (demo_grid hs) w =
     ((int (length hs), 0), demo_grid (map grow_older hs), (Suc (fst w), snd w))"
  by (simp add: demo_cycle_def demo_total) (simp add: demo_grid_def new_cell_def)

lemma demo_ops_sel [simp]:
  "random_seed demo_ops = demo_seed"
  "Island demo_ops = (\<lambda>m w. (Island_new m, w))"
  "populate_the_island demo_ops = Island_populate demo_sample"
  "annual_cycle demo_ops = demo_cycle"
  "total_island_population demo_ops = Island_total"
  "population_in_each_cell demo_ops = Island_per_cell"
  by (simp_all add: demo_ops_def spec_island_def)

lemma demo_init:
  "BioSim_init demo_ops demo_map one_herbivore seed None None None ''png'' w =
     (Inr demo_start, (nat \<bar>seed\<bar>, snd w))"
  by (simp add: BioSim_init_def demo_new demo_populate demo_total demo_start_def demo_seed_def)

lemma demo_simulate_year:
  "simulate_year demo_ops (s \<lparr> island := demo_grid hs \<rparr>) w =
     (s \<lparr> island := demo_grid (map grow_older hs),
          herbivore_list := herbivore_list s @ [int (length hs)],
          carnivore_list := carnivore_list s @ [0] \<rparr>, (Suc (fst w), snd w))"
  by (simp add: simulate_year_def demo_cycle_grid)

lemma count_in_map:
  "(\<And>c. length (f (h c)) = length (f c)) \<Longrightarrow> count_in f (map (map h) g) = count_in f g"
  by (simp add: count_in_def comp_def)

lemma demo_returns_totals: "returns_totals demo_ops"
  by (simp add: returns_totals_def demo_cycle_def Island_total_def count_in_map)

lemma demo_two_years:
  "simulate demo_ops 2 v g demo_start (7, 11) =
     (demo_start \<lparr> island := demo_grid [five_year_old \<lparr> animal_age := 7 \<rparr>],
                   herbivore_list := [1, 1, 1], carnivore_list := [0, 0, 0] \<rparr>, (9, 11))"
  apply (simp add: simulate_def eval_nat_numeral)
  apply (simp add: simulate_year_def demo_start_def demo_cycle_grid grow_older_def five_year_old_def)
  done

section \<open>The claims\<close>

subsection \<open>Reproducibility\<close>

text \<open>
  Claim C1. Two runs constructed with the same map, the same population specification, the
  same parameter settings and the same seed, and advanced by the same calls, have the same
  history lists. The two runs may start from different states of the random source: the
  process-wide states \<open>w1\<close> and \<open>w2\<close> need only agree once \<open>random.seed(seed)\<close> has
  run, that is, on everything that seeding does not overwrite. A constructor that raises
  raises the same exception in both runs.
\<close>

theorem reproducible_runs:
  assumes "random_seed ops seed w1 = random_seed ops seed w2"
  shows "history_of_run ops m p seed cs w1 = history_of_run ops m p seed cs w2"
proof -
  have "BioSim_init ops m p seed None None None ''png'' w1 =
        BioSim_init ops m p seed None None None ''png'' w2"
    using assms by (simp add: BioSim_init_def)
  then show ?thesis by (simp add: history_of_run_def)
qed

text \<open>
  The theorem at the small instance: two process-wide states that differ in the state of
  the random source, the seed 7 and two simulated years.
\<close>

theorem reproducible_runs_witness:
  "random_seed demo_ops 7 (3, 11) = random_seed demo_ops 7 (4, 11) \<and>
   history_of_run demo_ops demo_map one_herbivore 7 [Simulate 2 1 None] (3, 11) =
   history_of_run demo_ops demo_map one_herbivore 7 [Simulate 2 1 None] (4, 11) \<and>
   history_of_run demo_ops demo_map one_herbivore 7 [Simulate 2 1 None] (4, 11) =
   Inr ([1, 1, 1], [0, 0, 0])"
proof -
  have h: "random_seed demo_ops 7 (3, 11) = random_seed demo_ops 7 (4, 11)"
    by (simp add: demo_seed_def)
  have v: "history_of_run demo_ops demo_map one_herbivore 7 [Simulate 2 1 None] (4, 11) =
             Inr ([1, 1, 1], [0, 0, 0])"
    by (simp add: history_of_run_def demo_init demo_two_years)
  show ?thesis
    using h v reproducible_runs [OF h, of demo_map one_herbivore "[Simulate 2 1 None]"]
    by simp
qed

subsection \<open>The loop of simulate\<close>

text \<open>
  Claim C2. For \<open>num_years \<ge> 0\<close>, \<open>simulate(num_years)\<close> runs the annual cycle of the
  island exactly \<open>num_years\<close> times and makes no other call on the collaborators; it
  appends \<open>num_years\<close> entries to each history list and leaves the entries already there
  as they are. The entry of year \<open>k + 1\<close> is what the annual cycle number \<open>k + 1\<close>
  returned, and, for an island whose annual cycle returns its totals, the total of the
  species on the island after that year.
\<close>

theorem simulate_appends_years:
  assumes "0 \<le> n"
  shows "herbivore_list (fst (simulate ops n v g s w)) =
           herbivore_list s @ map (\<lambda>k. fst (year_return ops k (island s) w)) [0..<nat n] \<and>
         carnivore_list (fst (simulate ops n v g s w)) =
           carnivore_list s @ map (\<lambda>k. snd (year_return ops k (island s) w)) [0..<nat n] \<and>
         int (length (herbivore_list (fst (simulate ops n v g s w)))) =
           int (length (herbivore_list s)) + n \<and>
         int (length (carnivore_list (fst (simulate ops n v g s w)))) =
           int (length (carnivore_list s)) + n \<and>
         (island (fst (simulate ops n v g s w)), snd (simulate ops n v g s w)) =
           island_after ops (nat n) (island s) w \<and>
         snd (snd (simulate (traced ops) n v g s (w, t))) = t @ replicate (nat n) Call_annual_cycle \<and>
         (returns_totals ops \<longrightarrow>
            map (\<lambda>k. year_return ops k (island s) w) [0..<nat n] =
            map (\<lambda>k. total_island_population ops (fst (island_after ops (Suc k) (island s) w)))
              [0..<nat n])"
proof -
  have lists: "herbivore_list (fst (simulate ops n v g s w)) =
           herbivore_list s @ map (\<lambda>k. fst (year_return ops k (island s) w)) [0..<nat n] \<and>
         carnivore_list (fst (simulate ops n v g s w)) =
           carnivore_list s @ map (\<lambda>k. snd (year_return ops k (island s) w)) [0..<nat n]"
    by (simp add: simulate_def simulate_loop_unfold)
  have lens: "int (length (herbivore_list (fst (simulate ops n v g s w)))) =
           int (length (herbivore_list s)) + n \<and>
         int (length (carnivore_list (fst (simulate ops n v g s w)))) =
           int (length (carnivore_list s)) + n"
    using assms by (simp add: lists)
  have state: "(island (fst (simulate ops n v g s w)), snd (simulate ops n v g s w)) =
           island_after ops (nat n) (island s) w"
    by (simp add: simulate_def simulate_loop_unfold)
  have log: "snd (snd (simulate (traced ops) n v g s (w, t))) =
           t @ replicate (nat n) Call_annual_cycle"
    by (simp add: simulate_def simulate_loop_traced)
  have totals: "returns_totals ops \<longrightarrow>
            map (\<lambda>k. year_return ops k (island s) w) [0..<nat n] =
            map (\<lambda>k. total_island_population ops (fst (island_after ops (Suc k) (island s) w)))
              [0..<nat n]"
    by (simp add: year_return_total)
  from lists lens state log totals show ?thesis by blast
qed

text \<open>The theorem at the small instance, for two years.\<close>

theorem simulate_appends_years_witness:
  "(0::int) \<le> 2 \<and> returns_totals demo_ops \<and>
   herbivore_list (fst (simulate demo_ops 2 1 None demo_start (7, 11))) =
     [1, fst (year_return demo_ops 0 (island demo_start) (7, 11)),
         fst (year_return demo_ops 1 (island demo_start) (7, 11))] \<and>
   int (length (herbivore_list (fst (simulate demo_ops 2 1 None demo_start (7, 11))))) = 3 \<and>
   int (length (carnivore_list (fst (simulate demo_ops 2 1 None demo_start (7, 11))))) = 3 \<and>
   snd (snd (simulate (traced demo_ops) 2 1 None demo_start ((7, 11), []))) =
     [Call_annual_cycle, Call_annual_cycle] \<and>
   year_return demo_ops 1 (island demo_start) (7, 11) =
     total_island_population demo_ops (fst (island_after demo_ops 2 (island demo_start) (7, 11)))"
proof -
  have h: "(0::int) \<le> 2" by simp
  have two: "[0..<nat 2] = [0, 1]"
    by (simp add: eval_nat_numeral)
  show ?thesis
    using h demo_returns_totals
      simulate_appends_years [OF h, of demo_ops 1 None demo_start "(7, 11)" "[]"]
    by (simp add: two demo_start_def eval_nat_numeral)
qed

subsection \<open>The year counter\<close>

text \<open>
  Claim C3. After construction and after any sequence of calls of \<open>simulate\<close> and
  \<open>add_population\<close>, the property \<open>year\<close> is 0: \<open>last_year_simulated\<close> is set to 0 by
  the constructor and written by no other method.
\<close>

theorem year_always_zero:
  "BioSim_init ops m p seed y c b f w = (Inr s, w') \<Longrightarrow>
   year (fst (apply_calls ops cs s w')) = 0"
  by (simp add: year_def apply_calls_year init_year)

text \<open>The theorem at the small instance: three simulated years, then one more animal.\<close>

theorem year_always_zero_witness:
  "BioSim_init demo_ops demo_map one_herbivore 7 None None None ''png'' (3, 11) =
     (Inr demo_start, (7, 11)) \<and>
   year (fst (apply_calls demo_ops [Simulate 3 1 None, Add_population one_herbivore]
                demo_start (7, 11))) = 0"
proof -
  have h: "BioSim_init demo_ops demo_map one_herbivore 7 None None None ''png'' (3, 11) =
             (Inr demo_start, (7, 11))"
    by (simp add: demo_init)
  show ?thesis
    using h year_always_zero [OF h, of "[Simulate 3 1 None, Add_population one_herbivore]"]
    by simp
qed

subsection \<open>The number of animals\<close>

text \<open>
  \<open>num_animals\<close> reads the last entries of the two history lists, and
  \<open>add_population\<close> does not write the lists.
\<close>

lemma num_animals_add_population:
  "num_animals (fst (snd (add_population ops p s w))) = num_animals s"
  by (cases "populate_the_island ops p (island s) w")
     (simp add: num_animals_def add_population_def split: sum.splits)

text \<open>
  Claim C4. After an \<open>add_population\<close> call \<open>num_animals\<close> should be the number of animals
  on the island at that moment. The code does not do that: on the island of one lowland
  cell, constructed with one herbivore, a call of \<open>add_population\<close> with one more
  herbivore succeeds and leaves two animals on the island, and \<open>num_animals\<close> is still 1,
  while \<open>num_animals_per_species\<close> reads 2 herbivores.
\<close>

theorem num_animals_stale_after_add_population:
  "BioSim_init demo_ops demo_map one_herbivore 7 None None None ''png'' (3, 11) =
     (Inr demo_start, (7, 11)) \<and>
   fst (add_population demo_ops one_herbivore demo_start (7, 11)) = None \<and>
   num_animals (fst (snd (add_population demo_ops one_herbivore demo_start (7, 11)))) = Inr 1 \<and>
   total_island_population demo_ops
     (island (fst (snd (add_population demo_ops one_herbivore demo_start (7, 11))))) = (2, 0) \<and>
   num_animals_per_species demo_ops
     (fst (snd (add_population demo_ops one_herbivore demo_start (7, 11)))) =
     [(''Herbivores'', 2), (''Carnivore'', 0)]"
  by (simp add: demo_init add_population_def demo_start_def demo_populate demo_total
        num_animals_def last_item_def num_animals_per_species_def)

subsection \<open>The parameter setters\<close>

text \<open>For an argument that is an object, the setters return what its method returns.\<close>

lemma setters_delegate:
  "attrs ''set_animal_parameters'' = Some f \<Longrightarrow>
     set_animal_parameters (Object attrs) ps w = f ps w"
  "attrs ''set_landscape_parameters'' = Some f \<Longrightarrow>
     set_landscape_parameters (Object attrs) ps w = f ps w"
  by (simp_all add: set_animal_parameters_def set_landscape_parameters_def call_method_def)

text \<open>
  Claim C5. A setter call with valid keys and values in range should apply the override.
  The code does not do that for the argument its docstring describes: when the species or
  the landscape is given as a string, the call raises \<open>AttributeError\<close> whatever the
  parameter dictionary is, and the process-wide state, the parameter store in it, is as
  before the call.
\<close>

theorem setters_raise_on_documented_argument:
  "set_animal_parameters (Str n) ps w = (Some AttributeError, w) \<and>
   set_landscape_parameters (Str n) ps w = (Some AttributeError, w)"
  by (simp add: set_animal_parameters_def set_landscape_parameters_def call_method_def)

subsection \<open>Seeding\<close>

text \<open>
  Claim C6. The random source is seeded exactly once, by the constructor, before the
  island is built and populated; no call of \<open>simulate\<close> or \<open>add_population\<close> seeds it.
  The log of a run that starts with a successful construction is the seeding, the
  construction of the island, its population, and then the calls on the island that the
  calls of \<open>simulate\<close> and \<open>add_population\<close> make; the seeding is its only seeding.
\<close>

theorem seeded_once:
  assumes "BioSim_init (traced ops) m p seed y c b f (w, []) = (Inr s, wt)"
  shows "snd (snd (apply_calls (traced ops) cs s wt)) =
           Call_seed seed # Call_Island m # Call_populate p # concat (map events_of_call cs) \<and>
         filter is_seed (snd (snd (apply_calls (traced ops) cs s wt))) = [Call_seed seed]"
proof -
  obtain w' t' where wt: "wt = (w', t')" by (cases wt)
  have t': "t' = [Call_seed seed, Call_Island m, Call_populate p]"
    using init_traced_ok [OF assms] wt by simp
  show ?thesis
    by (simp add: wt t' apply_calls_traced no_seed_in_calls)
qed

text \<open>The theorem at the small instance: two simulated years, then one more animal.\<close>

theorem seeded_once_witness:
  "BioSim_init (traced demo_ops) demo_map one_herbivore 7 None None None ''png'' ((3, 11), []) =
     (Inr demo_start,
      ((7, 11), [Call_seed 7, Call_Island demo_map, Call_populate one_herbivore])) \<and>
   snd (snd (apply_calls (traced demo_ops) [Simulate 2 1 None, Add_population one_herbivore]
     demo_start ((7, 11), [Call_seed 7, Call_Island demo_map, Call_populate one_herbivore]))) =
     [Call_seed 7, Call_Island demo_map, Call_populate one_herbivore,
      Call_annual_cycle, Call_annual_cycle, Call_populate one_herbivore] \<and>
   filter is_seed
     (snd (snd (apply_calls (traced demo_ops) [Simulate 2 1 None, Add_population one_herbivore]
        demo_start ((7, 11), [Call_seed 7, Call_Island demo_map, Call_populate one_herbivore])))) =
     [Call_seed 7]"
proof -
  have i: "BioSim_init demo_ops demo_map one_herbivore 7 None None None ''png'' (3, 11) =
             (Inr demo_start, (7, 11))"
    by (simp add: demo_init)
  have h: "BioSim_init (traced demo_ops) demo_map one_herbivore 7 None None None ''png''
             ((3, 11), []) =
           (Inr demo_start,
            ((7, 11), [Call_seed 7, Call_Island demo_map, Call_populate one_herbivore]))"
    using init_ok_traced [OF i, of "[]"] by simp
  show ?thesis
    using h seeded_once [OF h, of "[Simulate 2 1 None, Add_population one_herbivore]"]
    by (simp add: eval_nat_numeral)
qed

subsection \<open>Construction\<close>

text \<open>
  Claim C7. A construction that succeeds has built the island from the map and then
  populated it with the initial population, and has run no annual cycle; each history list
  has exactly one entry, the total of its species on the populated island.
\<close>

theorem construction_builds_then_populates:
  assumes "BioSim_init ops m p seed y c b f w = (Inr s, w')"
  shows "(\<exists>land0 w2. Island ops m (random_seed ops seed w) = (Inr land0, w2) \<and>
                     populate_the_island ops p land0 w2 = (None, island s, w')) \<and>
         herbivore_list s = [fst (total_island_population ops (island s))] \<and>
         carnivore_list s = [snd (total_island_population ops (island s))] \<and>
         snd (snd (BioSim_init (traced ops) m p seed y c b f (w, []))) =
           [Call_seed seed, Call_Island m, Call_populate p]"
proof -
  have "\<exists>land0 w2. Island ops m (random_seed ops seed w) = (Inr land0, w2) \<and>
                     populate_the_island ops p land0 w2 = (None, island s, w')"
    using assms
    by (auto simp: BioSim_init_def Let_def split: prod.splits sum.splits option.splits)
  moreover have "herbivore_list s = [fst (total_island_population ops (island s))]"
    using assms
    by (auto simp: BioSim_init_def Let_def split: prod.splits sum.splits option.splits)
  moreover have "carnivore_list s = [snd (total_island_population ops (island s))]"
    using assms
    by (auto simp: BioSim_init_def Let_def split: prod.splits sum.splits option.splits)
  moreover have "snd (snd (BioSim_init (traced ops) m p seed y c b f (w, []))) =
           [Call_seed seed, Call_Island m, Call_populate p]"
    using init_ok_traced [OF assms, of "[]"] by simp
  ultimately show ?thesis by blast
qed

text \<open>The theorem at the small instance.\<close>

theorem construction_builds_then_populates_witness:
  "BioSim_init demo_ops demo_map one_herbivore 7 None None None ''png'' (3, 11) =
     (Inr demo_start, (7, 11)) \<and>
   herbivore_list demo_start = [fst (total_island_population demo_ops (island demo_start))] \<and>
   carnivore_list demo_start = [snd (total_island_population demo_ops (island demo_start))] \<and>
   snd (snd (BioSim_init (traced demo_ops) demo_map one_herbivore 7 None None None ''png''
               ((3, 11), []))) =
     [Call_seed 7, Call_Island demo_map, Call_populate one_herbivore]"
proof -
  have h: "BioSim_init demo_ops demo_map one_herbivore 7 None None None ''png'' (3, 11) =
             (Inr demo_start, (7, 11))"
    by (simp add: demo_init)
  show ?thesis
    using h construction_builds_then_populates [OF h] by blast
qed

subsection \<open>Adding a population\<close>

text \<open>
  Claim C8. On the island of the specification, \<open>add_population\<close> with a valid population
  specification raises nothing, keeps every animal that was on the island in its cell, and
  raises the total of each species by the number of animals of that species that the
  specification describes.
\<close>

theorem add_population_is_additive:
  assumes "valid_population (island s) p"
  shows "fst (add_population (spec_island seed_fn sample cycle) p s w) = None \<and>
         grid_grows (island s)
           (island (fst (snd (add_population (spec_island seed_fn sample cycle) p s w)))) \<and>
         total_island_population (spec_island seed_fn sample cycle)
           (island (fst (snd (add_population (spec_island seed_fn sample cycle) p s w)))) =
         (fst (total_island_population (spec_island seed_fn sample cycle) (island s)) +
            described Herbivore p,
          snd (total_island_population (spec_island seed_fn sample cycle) (island s)) +
            described Carnivore p)"
proof -
  obtain r g' w' where ip: "Island_populate sample p (island s) w = (r, g', w')"
    by (cases "Island_populate sample p (island s) w") auto
  from Island_populate_valid [OF assms, of sample w] ip
  have "r = None" and "grid_grows (island s) g'"
    and "count_in herbivores g' = count_in herbivores (island s) + described Herbivore p"
    and "count_in carnivores g' = count_in carnivores (island s) + described Carnivore p"
    by simp_all
  then show ?thesis
    by (simp add: add_population_def spec_island_def Island_total_def ip)
qed

text \<open>The theorem at the small instance: one more herbivore in the lowland cell.\<close>

theorem add_population_is_additive_witness:
  "valid_population (island demo_start) one_herbivore \<and>
   fst (add_population demo_ops one_herbivore demo_start (7, 11)) = None \<and>
   grid_grows (island demo_start)
     (island (fst (snd (add_population demo_ops one_herbivore demo_start (7, 11))))) \<and>
   total_island_population demo_ops
     (island (fst (snd (add_population demo_ops one_herbivore demo_start (7, 11))))) = (2, 0)"
proof -
  have h: "valid_population (island demo_start) one_herbivore"
    by (simp add: valid_population_def valid_entry_def demo_start_def demo_grid_def
          one_herbivore_def cell_at_def species_of_name_def)
  have d: "described Herbivore one_herbivore = 1" "described Carnivore one_herbivore = 0"
    by (simp_all add: described_def one_herbivore_def species_of_name_def)
  have t: "Island_total (island demo_start) = (1, 0)"
    by (simp add: demo_start_def demo_total)
  show ?thesis
    using h d t
      add_population_is_additive [OF h, of demo_seed demo_sample demo_cycle "(7, 11)"]
    by (simp add: demo_ops_def spec_island_def)
qed

subsection \<open>The visualisation arguments\<close>

text \<open>
  Claim C9. What \<open>simulate\<close> computes does not depend on \<open>vis_years\<close> and
  \<open>img_years\<close>: for the same number of years, the same object and the same process-wide
  state, any two choices of them give the same object, with the same history lists, and
  the same process-wide state.
\<close>

theorem simulate_ignores_visualisation:
  "simulate ops n v1 g1 s w = simulate ops n v2 g2 s w"
  by (simp add: simulate_def)

subsection \<open>The counts of each species\<close>

text \<open>
  Claim C10. \<open>num_animals_per_species\<close> reads the totals of the island as it is at the
  call, so after an \<open>add_population\<close> call it gives the totals of the island that the
  call left. Its keys are \<open>Herbivores\<close> and \<open>Carnivore\<close>, in the singular, while the
  columns of \<open>animal_distribution\<close> are \<open>Herbivores\<close> and \<open>Carnivores\<close>.
\<close>

theorem per_species_reads_island:
  "map fst (num_animals_per_species ops s) = [''Herbivores'', ''Carnivore''] \<and>
   map snd (num_animals_per_species ops s) =
     [fst (total_island_population ops (island s)), snd (total_island_population ops (island s))] \<and>
   num_animals_per_species ops (fst (snd (add_population ops p s w))) =
     [(''Herbivores'',
       fst (total_island_population ops (fst (snd (populate_the_island ops p (island s) w))))),
      (''Carnivore'',
       snd (total_island_population ops (fst (snd (populate_the_island ops p (island s) w)))))] \<and>
   columns (animal_distribution ops s) = [''Herbivores'', ''Carnivores''] \<and>
   ''Carnivore'' \<notin> set (columns (animal_distribution ops s)) \<and>
   ''Carnivores'' \<notin> set (map fst (num_animals_per_species ops s))"
  by (simp add: num_animals_per_species_def animal_distribution_def add_population_def
        split: prod.splits)

end
